theory Spec2Isabelle
  imports Complex_Main "HOL-Library.Word"
begin

section \<open>Data model\<close>

text \<open>
  The module \<^verbatim>\<open>clipseg.py\<close> works on torch tensors and numpy arrays. A mask or a map of
  logits is a two-dimensional float tensor, a list of rows; a \<^verbatim>\<open>uint8\<close> image of shape
  (H, W, C) is a list of rows of pixels of 8-bit words. The image tensors that the host
  passes in can have any number of axes, so they are nested arrays \<open>nd\<close>. Float values are
  modelled by reals; the two places where the floating-point format matters have their
  own definitions: the conversion of the threshold to float32 (\<open>f32_round\<close>) and the
  division of the normalisation step (\<open>fp_div\<close>).
\<close>

type_synonym tensor2 = "real list list"
type_synonym tensor3 = "real list list list"
type_synonym tensor4 = "real list list list list"
type_synonym image_u8 = "8 word list list list"

datatype 'a nd = Scalar 'a | Arr "'a nd list"

datatype torch_dtype = Float16 | Float32

datatype error =
    TypeError string
  | IndexError string
  | ValueError string
  | RuntimeError string
  | LibraryError string

datatype fp = Fin real | PosInf | NegInf | NaN

text \<open>Python's \<^verbatim>\<open>int(x)\<close> on a float truncates towards zero.\<close>

definition py_int :: "real \<Rightarrow> int" where
  "py_int x = (if 0 \<le> x then \<lfloor>x\<rfloor> else \<lceil>x\<rceil>)"

text \<open>Sequencing of steps that may raise: the first error ends the computation.\<close>

definition and_then :: "error + 'a \<Rightarrow> ('a \<Rightarrow> error + 'b) \<Rightarrow> error + 'b" where
  "and_then m f = (case m of Inl e \<Rightarrow> Inl e | Inr x \<Rightarrow> f x)"

subsection \<open>Arrays of any rank\<close>

text \<open>
  \<^verbatim>\<open>ndarray.shape\<close>: the lengths of the axes, read along the first elements since an array
  is rectangular. An axis of length 0 ends the shape here, the lengths of the axes below
  it being lost in a nested list.
\<close>

fun np_shape :: "'a nd \<Rightarrow> nat list" where
  "np_shape (Scalar x) = []"
| "np_shape (Arr []) = [0]"
| "np_shape (Arr (x # xs)) = Suc (length xs) # np_shape x"

text \<open>\<^verbatim>\<open>a.shape[i]\<close>: an IndexError when the array has no axis \<open>i\<close>.\<close>

definition shape_index :: "'a nd \<Rightarrow> nat \<Rightarrow> error + nat" where
  "shape_index a i =
     (if i < length (np_shape a) then Inr (np_shape a ! i)
      else Inl (IndexError ''tuple index out of range''))"

text \<open>\<^verbatim>\<open>ndarray.squeeze()\<close>: every axis of length 1 is removed.\<close>

fun squeeze :: "'a nd \<Rightarrow> 'a nd" where
  "squeeze (Scalar x) = Scalar x"
| "squeeze (Arr [x]) = squeeze x"
| "squeeze (Arr xs) = Arr (map squeeze xs)"

text \<open>The array as an image of three axes, when it has exactly three.\<close>

fun the_scalar :: "'a nd \<Rightarrow> 'a option" where
  "the_scalar (Scalar x) = Some x"
| "the_scalar (Arr xs) = None"

fun the_items :: "'a nd \<Rightarrow> 'a nd list option" where
  "the_items (Scalar x) = None"
| "the_items (Arr xs) = Some xs"

definition as_axis1 :: "'a nd \<Rightarrow> 'a list option" where
  "as_axis1 a = Option.bind (the_items a) (\<lambda>xs. those (map the_scalar xs))"

definition as_axis2 :: "'a nd \<Rightarrow> 'a list list option" where
  "as_axis2 a = Option.bind (the_items a) (\<lambda>xs. those (map as_axis1 xs))"

definition as_axis3 :: "'a nd \<Rightarrow> 'a list list list option" where
  "as_axis3 a = Option.bind (the_items a) (\<lambda>xs. those (map as_axis2 xs))"

subsection \<open>Rounding\<close>

text \<open>Rounding to the nearest integer, a half to the even neighbour.\<close>

definition round_half_even :: "real \<Rightarrow> int" where
  "round_half_even x =
     (let f = \<lfloor>x\<rfloor>; d = x - of_int f
      in if d < 1 / 2 then f else if 1 / 2 < d then f + 1 else if even f then f else f + 1)"

text \<open>
  The conversion of a real to IEEE 754 binary32 with rounding to nearest, ties to even:
  the value is rounded to a multiple of the spacing of the floats at its binary exponent
  (24 significant bits, exponents from -126 on). Values beyond the largest float, which
  become infinite, are left as large as they are: they still exceed every float.
\<close>

definition f32_round :: "real \<Rightarrow> real" where
  "f32_round x =
     (if x = 0 then 0
      else let e = max (- 126) \<lfloor>log 2 \<bar>x\<bar>\<rfloor>;
               q = 2 powr (real_of_int e - 23)
           in real_of_int (round_half_even (x / q)) * q)"

section \<open>The threshold step (\<^verbatim>\<open>get_mask_dilated\<close>, lines 171 to 174)\<close>

definition sigmoid :: "real \<Rightarrow> real" where
  "sigmoid x = 1 / (1 + exp (- x))"

text \<open>
  \<^verbatim>\<open>torch.where(tensor > threshold, tensor, torch.tensor(0, dtype=self.dtype))\<close>:
  an elementwise selection between the element and the constant 0. The tensor holds
  float32 values, and torch converts the Python float \<^verbatim>\<open>threshold\<close> to the type of the
  tensor before it compares.
\<close>

definition torch_where_gt :: "real \<Rightarrow> tensor2 \<Rightarrow> tensor2" where
  "torch_where_gt threshold tensor =
     map (map (\<lambda>v. if v > f32_round threshold then v else 0)) tensor"

definition threshold_step :: "tensor2 \<Rightarrow> real \<Rightarrow> tensor2" where
  "threshold_step flat threshold = torch_where_gt threshold (map (map sigmoid) flat)"

section \<open>The normalisation step (\<^verbatim>\<open>get_mask_dilated\<close>, line 182)\<close>

text \<open>
  Division of two finite floats as IEEE 754 defines it, rounding aside: a zero divisor
  raises nothing, it yields NaN for a zero dividend and an infinity otherwise.
\<close>

definition fp_div :: "real \<Rightarrow> real \<Rightarrow> fp" where
  "fp_div x y =
     (if y = 0 then (if x = 0 then NaN else if 0 < x then PosInf else NegInf)
      else Fin (x / y))"

text \<open>
  \<^verbatim>\<open>Tensor.min()\<close> and \<^verbatim>\<open>Tensor.max()\<close> reduce over all elements and raise a
  RuntimeError on a tensor without elements.
\<close>

definition tensor_min :: "tensor2 \<Rightarrow> error + real" where
  "tensor_min t =
     (case concat t of
        [] \<Rightarrow> Inl (RuntimeError ''min(): operation on an empty tensor'')
      | x # xs \<Rightarrow> Inr (fold min xs x))"

definition tensor_max :: "tensor2 \<Rightarrow> error + real" where
  "tensor_max t =
     (case concat t of
        [] \<Rightarrow> Inl (RuntimeError ''max(): operation on an empty tensor'')
      | x # xs \<Rightarrow> Inr (fold max xs x))"

text \<open>
  \<^verbatim>\<open>(tensor_smoothed - tensor_smoothed.min()) / (tensor_smoothed.max() - tensor_smoothed.min())\<close>
  with no test of the divisor.
\<close>

definition normalize_step :: "tensor2 \<Rightarrow> error + fp list list" where
  "normalize_step tensor_smoothed =
     and_then (tensor_min tensor_smoothed) (\<lambda>mn.
     and_then (tensor_max tensor_smoothed) (\<lambda>mx.
     and_then (tensor_min tensor_smoothed) (\<lambda>mn'.
       Inr (map (map (\<lambda>v. fp_div (v - mn) (mx - mn'))) tensor_smoothed))))"

section \<open>Array helpers\<close>

text \<open>
  \<^verbatim>\<open>ndarray.astype(np.uint8)\<close> on a float: the fraction is dropped, and the integer is
  taken modulo 256.
\<close>

definition astype_uint8 :: "real \<Rightarrow> 8 word" where
  "astype_uint8 x = word_of_int (py_int x)"

text \<open>
  A numpy array is rectangular, so the first row gives \<^verbatim>\<open>shape[1]\<close>; an array with no
  row is given width 0 here.
\<close>

definition shape0 :: "'a list list \<Rightarrow> nat" where
  "shape0 a = length a"

definition shape1 :: "'a list list \<Rightarrow> nat" where
  "shape1 a = (case a of [] \<Rightarrow> 0 | r # _ \<Rightarrow> length r)"

definition same_shape2 :: "'a list list \<Rightarrow> 'b list list \<Rightarrow> bool" where
  "same_shape2 a b = (map length a = map length b)"

definition same_shape3 :: "'a list list list \<Rightarrow> 'b list list list \<Rightarrow> bool" where
  "same_shape3 a b = (map (map length) a = map (map length) b)"

subsection \<open>OpenCV: \<^verbatim>\<open>addWeighted\<close> and \<^verbatim>\<open>dilate\<close>\<close>

text \<open>
  \<^verbatim>\<open>cvRound\<close> rounds to the nearest integer, halves to the even one;
  \<^verbatim>\<open>saturate_cast<uchar>\<close> clamps the rounded value to 0..255.
\<close>

definition cvRound :: "real \<Rightarrow> int" where
  "cvRound x = round_half_even x"

definition saturate_u8 :: "real \<Rightarrow> 8 word" where
  "saturate_u8 x = word_of_int (max 0 (min 255 (cvRound x)))"

text \<open>
  \<^verbatim>\<open>cv2.addWeighted(src1, alpha, src2, beta, gamma)\<close>: the saturated weighted sum of two
  images of one size, an error when the sizes differ. The arguments are images, arrays
  with at least one pixel; for two arrays without any element OpenCV gives no array back,
  a case the module cannot reach, since the resize before it refuses an empty size.
\<close>

definition addWeighted :: "image_u8 \<Rightarrow> real \<Rightarrow> image_u8 \<Rightarrow> real \<Rightarrow> real \<Rightarrow> error + image_u8" where
  "addWeighted src1 alpha src2 beta gamma =
     (if same_shape3 src1 src2
      then Inr (map2 (map2 (map2 (\<lambda>a b.
             saturate_u8 (real (unat a) * alpha + real (unat b) * beta + gamma)))) src1 src2)
      else Inl (LibraryError ''cv2.error: the sizes of the input arguments do not match''))"

text \<open>
  \<^verbatim>\<open>np.ones((kernel_size, kernel_size), np.uint8)\<close>: a square kernel of ones, given here by
  its side; numpy refuses a negative dimension.
\<close>

definition np_ones_square :: "int \<Rightarrow> error + nat" where
  "np_ones_square kernel_size =
     (if kernel_size < 0 then Inl (ValueError ''negative dimensions are not allowed'')
      else Inr (nat kernel_size))"

text \<open>
  \<^verbatim>\<open>cv2.dilate(src, kernel, iterations=1)\<close> with a \<open>k\<close> by \<open>k\<close> kernel of ones: every
  output element is the maximum of the source over the kernel window placed with its
  anchor, the centre \<open>k div 2\<close>, on the element; positions outside the array do not
  count. An empty kernel stands for the 3 by 3 one. A source without any element is
  refused with an error.
\<close>

definition window :: "nat \<Rightarrow> nat \<Rightarrow> nat \<Rightarrow> nat list" where
  "window k n i =
     map nat (filter (\<lambda>p. 0 \<le> p \<and> p < int n)
       (map (\<lambda>a. int i + int a - int (k div 2)) [0..<k]))"

definition maximum :: "real list \<Rightarrow> real" where
  "maximum vs = (case vs of [] \<Rightarrow> 0 | v # r \<Rightarrow> fold max r v)"

definition cv2_dilate :: "tensor2 \<Rightarrow> nat \<Rightarrow> error + tensor2" where
  "cv2_dilate src ksize =
     (if concat src = [] then Inl (LibraryError ''cv2.error: (-215:Assertion failed) !src.empty()'')
      else let k = (if ksize = 0 then 3 else ksize)
      in Inr (map (\<lambda>i. map (\<lambda>j.
             maximum (concat (map (\<lambda>p. map (\<lambda>q. src ! p ! q) (window k (length (src ! p)) j))
                                  (window k (length src) i))))
           [0..<length (src ! i)]) [0..<length src]))"

section \<open>The external libraries\<close>

text \<open>
  The calls into torchvision, transformers, scipy, matplotlib and OpenCV whose results
  the module only passes on are parameters of the model. Each call that can raise returns
  a sum, so every instance of the record is one possible behaviour of the libraries.
  The two \<^verbatim>\<open>from_pretrained\<close> calls read persistent storage: they take the state \<open>'w\<close> of
  the world outside the program and return it, so what happens to that state is what the
  library does when it is called, and the module, for which \<open>'w\<close> is an abstract type,
  can pass it on but not make or change it. \<open>broadcast_add\<close> is what \<^verbatim>\<open>+\<close> does on two
  tensors of different shapes (broadcasting or an error); \<open>cast\<close> is
  \<^verbatim>\<open>Tensor.type(dtype)\<close> on one element.
\<close>

record ('w, 'pil, 'proc, 'model, 'inputs) lib =
  to_pil_image :: "real nd \<Rightarrow> error + 'pil"
  processor_from_pretrained :: "string \<Rightarrow> 'w \<Rightarrow> (error + 'proc) \<times> 'w"
  model_from_pretrained :: "string \<Rightarrow> 'w \<Rightarrow> (error + 'model) \<times> 'w"
  model_to :: "'model \<Rightarrow> string \<Rightarrow> error + 'model"
  processor_call :: "'proc \<Rightarrow> string \<Rightarrow> 'pil list \<Rightarrow> error + 'inputs"
  model_call :: "'model \<Rightarrow> 'inputs \<Rightarrow> error + tensor3"
  gaussian_filter :: "tensor2 \<Rightarrow> real \<Rightarrow> error + tensor2"
  cast :: "torch_dtype \<Rightarrow> real \<Rightarrow> real"
  viridis :: "real \<Rightarrow> real list"
  Greys_r :: "real \<Rightarrow> real list"
  cv2_resize :: "image_u8 \<Rightarrow> nat \<times> nat \<Rightarrow> error + image_u8"
  broadcast_add :: "tensor2 \<Rightarrow> tensor2 \<Rightarrow> error + tensor2"

section \<open>Helper methods for the CLIPSeg nodes (lines 27 to 81)\<close>

definition tensor_to_numpy :: "real nd \<Rightarrow> 8 word nd" where
  "tensor_to_numpy tensor =
     (let array = squeeze tensor
      in map_nd (\<lambda>v. astype_uint8 (v * 255)) array)"

definition numpy_to_tensor ::
  "('w, 'pil, 'proc, 'model, 'inputs) lib \<Rightarrow> image_u8 \<Rightarrow> torch_dtype \<Rightarrow> tensor4" where
  "numpy_to_tensor L array dtype =
     [map (map (map (\<lambda>b. cast L dtype (real (unat b) / 255)))) array]"

text \<open>
  \<^verbatim>\<open>colormap(mask.numpy())[:, :, :3]\<close>: the colormap gives every element its RGBA colour,
  of which the first three channels are kept.
\<close>

definition apply_colormap :: "tensor2 \<Rightarrow> (real \<Rightarrow> real list) \<Rightarrow> image_u8" where
  "apply_colormap mask_t colormap =
     map (map (\<lambda>v. map (\<lambda>c. astype_uint8 (c * 255)) (take 3 (colormap v)))) mask_t"

definition resize_image ::
  "('w, 'pil, 'proc, 'model, 'inputs) lib \<Rightarrow> image_u8 \<Rightarrow> nat \<times> nat \<Rightarrow> error + image_u8" where
  "resize_image L img dimensions = cv2_resize L img dimensions"

definition overlay_image :: "image_u8 \<Rightarrow> image_u8 \<Rightarrow> real \<Rightarrow> error + image_u8" where
  "overlay_image background foreground alpha =
     addWeighted background (1 - alpha) foreground alpha 0"

definition kernel_size :: "real \<Rightarrow> int" where
  "kernel_size dilation_factor = py_int (dilation_factor * 2) + 1"

definition dilate_mask ::
  "('w, 'pil, 'proc, 'model, 'inputs) lib \<Rightarrow> tensor2 \<Rightarrow> real \<Rightarrow> torch_dtype \<Rightarrow> error + tensor2" where
  "dilate_mask L mask_t dilation_factor dtype =
     and_then (np_ones_square (kernel_size dilation_factor)) (\<lambda>kern.
     and_then (cv2_dilate mask_t kern) (\<lambda>mask_dilated.
       Inr (map (map (cast L dtype)) mask_dilated)))"

definition get_heatmap ::
  "('w, 'pil, 'proc, 'model, 'inputs) lib \<Rightarrow> tensor2 \<Rightarrow> image_u8 \<Rightarrow> torch_dtype \<Rightarrow> error + tensor4" where
  "get_heatmap L mask_dilated img dtype =
     (let heatmap = apply_colormap mask_dilated (viridis L);
          dimensions = (shape1 img, shape0 img)
      in and_then (resize_image L heatmap dimensions) (\<lambda>heatmap_resized.
         and_then (overlay_image img heatmap_resized (1 / 2)) (\<lambda>overlay_heatmap.
           Inr (numpy_to_tensor L overlay_heatmap dtype))))"

definition get_binary ::
  "('w, 'pil, 'proc, 'model, 'inputs) lib \<Rightarrow> tensor2 \<Rightarrow> image_u8 \<Rightarrow> torch_dtype
     \<Rightarrow> error + tensor4 \<times> image_u8" where
  "get_binary L mask_dilated img dtype =
     (let binary_mask = apply_colormap mask_dilated (Greys_r L);
          dimensions = (shape1 img, shape0 img)
      in and_then (resize_image L binary_mask dimensions) (\<lambda>binary_mask_resized.
         and_then (overlay_image img binary_mask_resized 1) (\<lambda>overlay_binary.
           Inr (numpy_to_tensor L overlay_binary dtype, binary_mask_resized))))"

section \<open>The node \<^verbatim>\<open>CLIPSeg\<close> (lines 83 to 185)\<close>

text \<open>
  The node object has the two attributes that \<^verbatim>\<open>__init__\<close> sets. The methods take the
  node object and the state of the world and return both.
\<close>

record CLIPSeg =
  dtype :: torch_dtype
  device :: string

definition CLIPSeg_init :: "bool \<Rightarrow> string \<Rightarrow> CLIPSeg" where
  "CLIPSeg_init should_use_fp16 torch_device =
     \<lparr>dtype = (if should_use_fp16 then Float16 else Float32), device = torch_device\<rparr>"

definition pretrained_path :: string where
  "pretrained_path = ''./clipseg-rd64-refined''"

text \<open>\<^verbatim>\<open>preds[0]\<close>: indexing the first axis, an IndexError when it has size 0.\<close>

definition index0 :: "tensor3 \<Rightarrow> error + tensor2" where
  "index0 preds =
     (case preds of
        [] \<Rightarrow> Inl (IndexError ''index 0 is out of bounds for dimension 0 with size 0'')
      | p # _ \<Rightarrow> Inr p)"

definition do_clipseg ::
  "('w, 'pil, 'proc, 'model, 'inputs) lib \<Rightarrow> CLIPSeg \<Rightarrow> 'w \<Rightarrow> string \<Rightarrow> 'pil list
     \<Rightarrow> (error + tensor2) \<times> CLIPSeg \<times> 'w" where
  "do_clipseg L self w prompt images =
     (case processor_from_pretrained L pretrained_path w of
        (Inl e, w1) \<Rightarrow> (Inl e, self, w1)
      | (Inr processor, w1) \<Rightarrow>
          (case model_from_pretrained L pretrained_path w1 of
             (loading, w2) \<Rightarrow>
               (and_then loading (\<lambda>loaded.
                and_then (model_to L loaded (device self)) (\<lambda>model.
                and_then (processor_call L processor prompt images) (\<lambda>inputs.
                and_then (model_call L model inputs) (\<lambda>preds.
                  index0 preds)))),
                self, w2)))"

text \<open>
  Line 185 calls \<^verbatim>\<open>dilate_mask(mask_normalized, dilation_factor)\<close> with two arguments,
  while \<^verbatim>\<open>dilate_mask\<close> has the three required parameters \<^verbatim>\<open>mask\<close>,
  \<^verbatim>\<open>dilation_factor\<close> and \<^verbatim>\<open>dtype\<close>: Python evaluates the arguments and then raises a
  TypeError, before the body of \<^verbatim>\<open>dilate_mask\<close> runs.
\<close>

definition get_mask_dilated ::
  "('w, 'pil, 'proc, 'model, 'inputs) lib \<Rightarrow> CLIPSeg \<Rightarrow> tensor2 \<Rightarrow> real \<Rightarrow> real \<Rightarrow> real
     \<Rightarrow> error + tensor2" where
  "get_mask_dilated L self flat threshold blur dilation_factor =
     (let tensor_thresholded = threshold_step flat threshold
      in and_then (gaussian_filter L tensor_thresholded blur) (\<lambda>filtered.
         let tensor_smoothed = map (map (cast L (dtype self))) filtered
         in and_then (normalize_step tensor_smoothed) (\<lambda>mask_normalized.
              Inl (TypeError ''dilate_mask() missing 1 required positional argument: dtype''))))"

text \<open>
  Line 141 calls \<^verbatim>\<open>get_heatmap(mask_dilated, pil_image)\<close> without the required
  \<^verbatim>\<open>dtype\<close>, a TypeError again, so lines 142 to 153 are never reached.
\<close>

definition segment_image ::
  "('w, 'pil, 'proc, 'model, 'inputs) lib \<Rightarrow> CLIPSeg \<Rightarrow> 'w \<Rightarrow> real nd \<Rightarrow> string
     \<Rightarrow> real \<Rightarrow> real \<Rightarrow> real
     \<Rightarrow> (error + tensor2 \<times> tensor4 \<times> tensor4) \<times> CLIPSeg \<times> 'w" where
  "segment_image L self w img prompt blur threshold dilation_factor =
     (case to_pil_image L img of
        Inl e \<Rightarrow> (Inl e, self, w)
      | Inr pil_image \<Rightarrow>
          (case do_clipseg L self w prompt [pil_image] of
             (Inl e, self1, w1) \<Rightarrow> (Inl e, self1, w1)
           | (Inr flat, self1, w1) \<Rightarrow>
               (and_then (get_mask_dilated L self1 flat threshold blur dilation_factor)
                  (\<lambda>mask_dilated.
                     Inl (TypeError ''get_heatmap() missing 1 required positional argument: dtype'')),
                self1, w1)))"

section \<open>The node \<^verbatim>\<open>CombineMasks\<close> (lines 187 to 237)\<close>

text \<open>The node object has no attribute: \<^verbatim>\<open>__init__\<close> is \<^verbatim>\<open>pass\<close>.\<close>

type_synonym CombineMasks = unit

text \<open>\<^verbatim>\<open>+\<close> on two tensors: the elementwise sum when the shapes agree.\<close>

definition tensor_add ::
  "('w, 'pil, 'proc, 'model, 'inputs) lib \<Rightarrow> tensor2 \<Rightarrow> tensor2 \<Rightarrow> error + tensor2" where
  "tensor_add L a b =
     (if same_shape2 a b then Inr (map2 (map2 (+)) a b) else broadcast_add L a b)"

text \<open>
  The image array as OpenCV takes it on lines 230 and 231. The resized colour images have
  the three axes (H, W, 3), so an array with another number of axes cannot match them in
  size and channels, and \<^verbatim>\<open>cv2.addWeighted\<close> raises.
\<close>

definition cv2_image :: "8 word nd \<Rightarrow> error + image_u8" where
  "cv2_image a =
     (case as_axis3 a of
        None \<Rightarrow> Inl (LibraryError ''cv2.error: the sizes of the input arguments do not match'')
      | Some i \<Rightarrow> Inr i)"

text \<open>
  Lines 215 to 231: the combined mask and the two overlays, before their conversion.
  Line 224 reads \<^verbatim>\<open>image_np.shape[1]\<close> and then \<^verbatim>\<open>image_np.shape[0]\<close>.
\<close>

definition combine_masks_overlays ::
  "('w, 'pil, 'proc, 'model, 'inputs) lib \<Rightarrow> real nd \<Rightarrow> tensor2 \<Rightarrow> tensor2 \<Rightarrow> tensor2 option
     \<Rightarrow> error + tensor2 \<times> image_u8 \<times> image_u8" where
  "combine_masks_overlays L input_image mask_1 mask_2 mask_3 =
     and_then (case mask_3 of
                 Some m3 \<Rightarrow> and_then (tensor_add L mask_1 mask_2) (\<lambda>s. tensor_add L s m3)
               | None \<Rightarrow> tensor_add L mask_1 mask_2) (\<lambda>combined_mask.
       let image_np = tensor_to_numpy input_image;
           heatmap = apply_colormap combined_mask (viridis L);
           binary_mask = apply_colormap combined_mask (Greys_r L)
       in and_then (shape_index image_np 1) (\<lambda>width.
          and_then (shape_index image_np 0) (\<lambda>height.
          let dimensions = (width, height)
          in and_then (resize_image L heatmap dimensions) (\<lambda>heatmap_resized.
             and_then (resize_image L binary_mask dimensions) (\<lambda>binary_mask_resized.
             and_then (cv2_image image_np) (\<lambda>background.
             and_then (overlay_image background heatmap_resized (1 / 2)) (\<lambda>overlay_heatmap.
             and_then (overlay_image background binary_mask_resized 1) (\<lambda>overlay_binary.
               Inr (combined_mask, overlay_heatmap, overlay_binary)))))))))"

text \<open>
  Line 234 calls \<^verbatim>\<open>numpy_to_tensor(overlay_heatmap)\<close> without the required \<^verbatim>\<open>dtype\<close>:
  a TypeError, so lines 235 to 237 are never reached.
\<close>

definition combine_masks ::
  "('w, 'pil, 'proc, 'model, 'inputs) lib \<Rightarrow> CombineMasks \<Rightarrow> 'w \<Rightarrow> real nd
     \<Rightarrow> tensor2 \<Rightarrow> tensor2 \<Rightarrow> tensor2 option
     \<Rightarrow> (error + tensor2 \<times> tensor4 \<times> tensor4) \<times> CombineMasks \<times> 'w" where
  "combine_masks L self w input_image mask_1 mask_2 mask_3 =
     (and_then (combine_masks_overlays L input_image mask_1 mask_2 mask_3) (\<lambda>overlays.
        Inl (TypeError ''numpy_to_tensor() missing 1 required positional argument: dtype'')),
      self, w)"

section \<open>A library in which every call succeeds\<close>

text \<open>
  An instance of the library record on which the nodes can be evaluated. The state of the
  world is the list of the loads from persistent storage made so far, which each
  \<^verbatim>\<open>from_pretrained\<close> call extends by its own entry. The other functions are stand-ins
  that are exact on inputs of one constant value: \<^verbatim>\<open>to_pil_image\<close> takes a tensor of
  three axes with three channels, the model answers with logits 0 on a 2 by 2 grid, a
  Gaussian filter and a linear resize leave a constant array constant, the cast to
  float32 changes no float32 value, viridis has the colour (0.267004, 0.004874, 0.329415)
  at 0, and \<^verbatim>\<open>Greys_r\<close> runs from black at 0 to white at 1.
\<close>

datatype event = LoadProcessor string | LoadModel string

definition lib_ok :: "(event list, unit, unit, unit, unit) lib" where
  "lib_ok =
     \<lparr>to_pil_image = (\<lambda>t. case np_shape t of
          [c, h, w] \<Rightarrow> if c = 3 then Inr () else Inl (ValueError ''pic should not have > 4 channels'')
        | _ \<Rightarrow> Inl (ValueError ''pic should be 2/3 dimensional'')),
      processor_from_pretrained = (\<lambda>p w. (Inr (), w @ [LoadProcessor p])),
      model_from_pretrained = (\<lambda>p w. (Inr (), w @ [LoadModel p])),
      model_to = (\<lambda>m d. Inr m),
      processor_call = (\<lambda>p t i. Inr ()),
      model_call = (\<lambda>m i. Inr [[[0, 0], [0, 0]]]),
      gaussian_filter = (\<lambda>t s. Inr t),
      cast = (\<lambda>d x. x),
      viridis = (\<lambda>v. [267004 / 1000000, 4874 / 1000000, 329415 / 1000000, 1]),
      Greys_r = (\<lambda>v. [v, v, v, 1]),
      cv2_resize = (\<lambda>a d. case a of
          (px # _) # _ \<Rightarrow>
            if fst d = 0 \<or> snd d = 0 then Inl (LibraryError ''cv2.error: (-215:Assertion failed) !dsize.empty()'')
            else Inr (replicate (snd d) (replicate (fst d) px))
        | _ \<Rightarrow> Inl (LibraryError ''cv2.error: (-215:Assertion failed) !ssize.empty()'')),
      broadcast_add = (\<lambda>a b. Inl (RuntimeError ''the sizes of the tensors must match''))\<rparr>"

text \<open>
  The inputs of the evaluations: a black image as a tensor of shape (3, 2, 2), channels
  first as \<^verbatim>\<open>to_pil_image\<close> takes it, and a batch of one black image of shape (1, 2, 2, 3),
  as the host passes images.
\<close>

definition zeros_chw :: "real nd" where
  "zeros_chw =
     Arr [Arr [Arr [Scalar 0, Scalar 0], Arr [Scalar 0, Scalar 0]],
          Arr [Arr [Scalar 0, Scalar 0], Arr [Scalar 0, Scalar 0]],
          Arr [Arr [Scalar 0, Scalar 0], Arr [Scalar 0, Scalar 0]]]"

definition zeros_bhwc :: "real nd" where
  "zeros_bhwc =
     Arr [Arr [Arr [Arr [Scalar 0, Scalar 0, Scalar 0], Arr [Scalar 0, Scalar 0, Scalar 0]],
               Arr [Arr [Scalar 0, Scalar 0, Scalar 0], Arr [Scalar 0, Scalar 0, Scalar 0]]]]"

section \<open>Auxiliary facts\<close>

lemma sigmoid_zero: "sigmoid 0 = 1 / 2"
  by (simp add: sigmoid_def)

lemma floor_log2_two_fifths: "\<lfloor>log 2 (2 / 5 :: real)\<rfloor> = - 2"
proof -
  have "(2::real) powr real_of_int (- 2) = 1 / 4"
    by (simp add: powr_minus powr_numeral inverse_eq_divide)
  moreover have "(2::real) powr real_of_int (- 2 + 1) = 1 / 2"
    by (simp add: powr_minus inverse_eq_divide)
  ultimately have "(2::real) powr real_of_int (- 2) \<le> 2 / 5 \<and> 2 / 5 < (2::real) powr real_of_int (- 2 + 1)"
    by simp
  then show ?thesis
    using floor_log_eq_powr_iff [of "2 / 5 :: real" 2 "- 2"] by simp
qed

lemma f32_round_eq:
  assumes "x \<noteq> 0" and "\<lfloor>log 2 \<bar>x\<bar>\<rfloor> = e" and "- 126 \<le> e"
    and "2 powr (real_of_int e - 23) = q" and "round_half_even (x / q) = r"
  shows "f32_round x = real_of_int r * q"
proof -
  have "max (- 126) e = e" using assms(3) by simp
  then show ?thesis
    unfolding f32_round_def Let_def using assms by auto
qed

lemma f32_round_two_fifths: "f32_round (2 / 5) = 13421773 / 33554432"
proof -
  have e: "\<lfloor>log 2 \<bar>2 / 5 :: real\<bar>\<rfloor> = - 2"
    using floor_log2_two_fifths by simp
  have q: "(2::real) powr (real_of_int (- 2) - 23) = 1 / 33554432"
  proof -
    have "real_of_int (- 2) - 23 = - 25" by simp
    moreover have "(2::real) powr (- 25) = 1 / 2 ^ 25"
      by (simp add: powr_minus inverse_eq_divide powr_numeral)
    ultimately show ?thesis by simp
  qed
  have "\<lfloor>67108864 / 5 :: real\<rfloor> = 13421772" by simp
  then have "round_half_even (67108864 / 5) = 13421773"
    unfolding round_half_even_def Let_def by simp
  then have r: "round_half_even ((2 / 5) / (1 / 33554432)) = 13421773" by simp
  have "f32_round (2 / 5) = real_of_int 13421773 * (1 / 33554432)"
    by (rule f32_round_eq [OF _ e _ q r]) simp_all
  then show ?thesis by simp
qed

lemma floor_log2_half: "\<lfloor>log 2 (1 / 2 :: real)\<rfloor> = - 1"
proof -
  have "(2::real) powr real_of_int (- 1) = 1 / 2"
    by (simp add: powr_minus inverse_eq_divide)
  then have "(2::real) powr real_of_int (- 1) \<le> 1 / 2 \<and> 1 / 2 < (2::real) powr real_of_int (- 1 + 1)"
    by simp
  then show ?thesis
    using floor_log_eq_powr_iff [of "1 / 2 :: real" 2 "- 1"] by simp
qed

lemma f32_round_half: "f32_round (1 / 2) = 1 / 2"
proof -
  have e: "\<lfloor>log 2 \<bar>1 / 2 :: real\<bar>\<rfloor> = - 1"
    using floor_log2_half by simp
  have q: "(2::real) powr (real_of_int (- 1) - 23) = 1 / 16777216"
  proof -
    have "real_of_int (- 1) - 23 = - 24" by simp
    moreover have "(2::real) powr (- 24) = 1 / 2 ^ 24"
      by (simp add: powr_minus inverse_eq_divide powr_numeral)
    ultimately show ?thesis by simp
  qed
  have "round_half_even 8388608 = 8388608"
    by (simp add: round_half_even_def)
  then have r: "round_half_even ((1 / 2) / (1 / 16777216)) = 8388608" by simp
  have "f32_round (1 / 2) = real_of_int 8388608 * (1 / 16777216)"
    by (rule f32_round_eq [OF _ e _ q r]) simp_all
  then show ?thesis by simp
qed

lemma window_one: "i < n \<Longrightarrow> window (Suc 0) n i = [i]"
  by (simp add: window_def)

lemma cv2_dilate_one:
  assumes "concat m \<noteq> []"
  shows "cv2_dilate m (Suc 0) = Inr m"
proof -
  let ?d = "map (\<lambda>i. map (\<lambda>j.
             maximum (concat (map (\<lambda>p. map (\<lambda>q. m ! p ! q) (window (Suc 0) (length (m ! p)) j))
                                  (window (Suc 0) (length m) i))))
           [0..<length (m ! i)]) [0..<length m]"
  have "?d = m"
  proof (rule nth_equalityI)
    show "length ?d = length m" by simp
  next
    fix i
    assume "i < length ?d"
    then have i: "i < length m" by simp
    show "?d ! i = m ! i"
    proof (rule nth_equalityI)
      show "length (?d ! i) = length (m ! i)" using i by simp
    next
      fix j
      assume "j < length (?d ! i)"
      then have j: "j < length (m ! i)" using i by simp
      show "?d ! i ! j = m ! i ! j"
        using i j by (simp add: window_one maximum_def)
    qed
  qed
  then show ?thesis
    using assms by (simp add: cv2_dilate_def)
qed

lemma kernel_size_int: "kernel_size (of_int n) = 2 * n + 1"
proof -
  have "(of_int n :: real) * 2 = of_int (2 * n)" by simp
  then have fl: "\<lfloor>(of_int n :: real) * 2\<rfloor> = 2 * n" and ce: "\<lceil>(of_int n :: real) * 2\<rceil> = 2 * n"
    by (metis floor_of_int, metis ceiling_of_int)
  show ?thesis
    unfolding kernel_size_def py_int_def using fl ce by simp
qed

lemma kernel_size_at_least_one: "1 \<le> kernel_size d \<longleftrightarrow> - 1 / 2 < d"
proof (cases "0 \<le> d * 2")
  case True
  then have "0 \<le> \<lfloor>d * 2\<rfloor>" by simp
  moreover have "- 1 / 2 < d" using True by simp
  ultimately show ?thesis using True by (simp add: kernel_size_def py_int_def)
next
  case False
  then have k: "kernel_size d = \<lceil>d * 2\<rceil> + 1"
    by (simp add: kernel_size_def py_int_def)
  have "0 \<le> \<lceil>d * 2\<rceil> \<longleftrightarrow> - 1 < d * 2"
    by (rule zero_le_ceiling)
  moreover have "- 1 < d * 2 \<longleftrightarrow> - 1 / 2 < d" by auto
  ultimately show ?thesis unfolding k by linarith
qed

lemma round_half_even_of_nat: "round_half_even (real n) = int n"
  by (simp add: round_half_even_def Let_def)

lemma saturate_u8_unat: "saturate_u8 (real (unat (b :: 8 word))) = b"
proof -
  have "uint b < 2 ^ LENGTH(8)" by (rule unsigned_less)
  then have "uint b < 256" by simp
  moreover have "0 \<le> uint b" by simp
  ultimately have clamp: "max 0 (min 255 (uint b)) = uint b" by linarith
  have "cvRound (real (unat b)) = int (unat b)"
    unfolding cvRound_def by (rule round_half_even_of_nat)
  then have "cvRound (real (unat b)) = uint b" by simp
  then have "saturate_u8 (real (unat b)) = word_of_int (uint b)"
    unfolding saturate_u8_def using clamp by metis
  then show ?thesis by simp
qed

lemma saturate_u8_weights:
  "saturate_u8 (real (unat a) * 0 + real (unat (b :: 8 word)) * 1 + 0) = b"
proof -
  have "real (unat a) * 0 + real (unat b) * 1 + 0 = real (unat b)" by simp
  then show ?thesis using saturate_u8_unat [of b] by metis
qed

lemma map2_second:
  "length xs = length ys \<Longrightarrow> (\<And>x y. (x, y) \<in> set (zip xs ys) \<Longrightarrow> f x y = y)
     \<Longrightarrow> map2 f xs ys = ys"
proof (induction xs ys rule: list_induct2)
  case Nil
  then show ?case by simp
next
  case (Cons x xs y ys)
  then show ?case by simp
qed

lemma map_eq_zip:
  "map g xs = map h ys \<Longrightarrow> (x, y) \<in> set (zip xs ys) \<Longrightarrow> g x = h y"
proof -
  assume eq: "map g xs = map h ys" and mem: "(x, y) \<in> set (zip xs ys)"
  from mem obtain i where i: "i < length xs" "i < length ys" "xs ! i = x" "ys ! i = y"
    by (auto simp: in_set_zip)
  from eq have "map g xs ! i = map h ys ! i" by simp
  with i show ?thesis by simp
qed

lemma addWeighted_second:
  assumes "same_shape3 src1 src2"
  shows "addWeighted src1 0 src2 1 0 = Inr src2"
proof -
  from assms have shape: "map (map length) src1 = map (map length) src2"
    by (simp add: same_shape3_def)
  have len: "length src1 = length src2"
    using shape by (metis length_map)
  have rows: "map2 (map2 (\<lambda>a b. saturate_u8 (real (unat a) * 0 + real (unat b) * 1 + 0))) r1 r2 = r2"
    if "(r1, r2) \<in> set (zip src1 src2)" for r1 r2
  proof -
    have lens: "map length r1 = map length r2"
      using shape that by (rule map_eq_zip)
    have "length r1 = length r2"
      using lens by (metis length_map)
    moreover have "map2 (\<lambda>a b. saturate_u8 (real (unat a) * 0 + real (unat b) * 1 + 0)) p1 p2 = p2"
      if "(p1, p2) \<in> set (zip r1 r2)" for p1 p2
    proof -
      have "length p1 = length p2"
        using lens that by (rule map_eq_zip)
      then show ?thesis
        by (rule map2_second) (rule saturate_u8_weights)
    qed
    ultimately show ?thesis
      by (rule map2_second)
  qed
  have "map2 (map2 (map2 (\<lambda>a b. saturate_u8 (real (unat a) * 0 + real (unat b) * 1 + 0)))) src1 src2 = src2"
    using len rows by (rule map2_second)
  with assms show ?thesis
    by (simp add: addWeighted_def)
qed

lemma overlay_image_one:
  "same_shape3 background foreground \<Longrightarrow> overlay_image background foreground 1 = Inr foreground"
  by (simp add: overlay_image_def addWeighted_second)

lemma overlay_image_Inr_shape:
  "overlay_image background foreground alpha = Inr r \<Longrightarrow> same_shape3 background foreground"
  by (simp add: overlay_image_def addWeighted_def split: if_splits)

lemma overlay_image_one_Inr:
  "overlay_image background foreground 1 = Inr r \<Longrightarrow> r = foreground"
  using overlay_image_Inr_shape [of background foreground 1 r]
    overlay_image_one [of background foreground] by simp

lemma tensor_to_numpy_zeros_bhwc:
  "tensor_to_numpy zeros_bhwc =
     Arr [Arr [Arr [Scalar 0, Scalar 0, Scalar 0], Arr [Scalar 0, Scalar 0, Scalar 0]],
          Arr [Arr [Scalar 0, Scalar 0, Scalar 0], Arr [Scalar 0, Scalar 0, Scalar 0]]]"
  by (simp add: tensor_to_numpy_def zeros_bhwc_def astype_uint8_def py_int_def)

lemma viridis_zero: "apply_colormap [[0, 0], [0, 0]] (viridis lib_ok)
    = [[[68, 1, 84], [68, 1, 84]], [[68, 1, 84], [68, 1, 84]]]"
  by (simp add: apply_colormap_def lib_ok_def astype_uint8_def py_int_def)

lemma overlay_half: "overlay_image [[[0, 0, 0], [0, 0, 0]], [[0, 0, 0], [0, 0, 0]]]
     [[[68, 1, 84], [68, 1, 84]], [[68, 1, 84], [68, 1, 84]]] (1 / 2)
    = Inr [[[34, 0, 42], [34, 0, 42]], [[34, 0, 42], [34, 0, 42]]]"
  by (simp add: overlay_image_def addWeighted_def same_shape3_def saturate_u8_def cvRound_def
      round_half_even_def Let_def)

lemma combine_masks_overlays_zeros:
  "combine_masks_overlays lib_ok zeros_bhwc [[0, 0], [0, 0]] [[0, 0], [0, 0]] None
     = Inr ([[0, 0], [0, 0]],
            [[[34, 0, 42], [34, 0, 42]], [[34, 0, 42], [34, 0, 42]]],
            [[[0, 0, 0], [0, 0, 0]], [[0, 0, 0], [0, 0, 0]]])"
proof -
  have b: "apply_colormap [[0, 0], [0, 0]] (Greys_r lib_ok)
      = [[[0, 0, 0], [0, 0, 0]], [[0, 0, 0], [0, 0, 0]]]"
    by (simp add: apply_colormap_def lib_ok_def astype_uint8_def py_int_def)
  have r: "resize_image lib_ok [[[a, b, c], p], q] (Suc (Suc 0), Suc (Suc 0))
      = Inr [[[a, b, c], [a, b, c]], [[a, b, c], [a, b, c]]]"
    for a b c :: "8 word" and p q
    by (simp add: resize_image_def lib_ok_def)
  have i: "cv2_image (Arr [Arr [Arr [Scalar 0, Scalar 0, Scalar 0], Arr [Scalar 0, Scalar 0, Scalar 0]],
          Arr [Arr [Scalar 0, Scalar 0, Scalar 0], Arr [Scalar 0, Scalar 0, Scalar 0]]])
      = Inr [[[0, 0, 0], [0, 0, 0]], [[0, 0, 0], [0, 0, 0 :: 8 word]]]"
    by (simp add: cv2_image_def as_axis3_def as_axis2_def as_axis1_def)
  have o1: "overlay_image [[[0, 0, 0], [0, 0, 0]], [[0, 0, 0], [0, 0, 0]]]
      [[[0, 0, 0], [0, 0, 0]], [[0, 0, 0], [0, 0, 0]]] 1
      = Inr [[[0, 0, 0], [0, 0, 0]], [[0, 0, 0], [0, 0, 0]]]"
    by (rule overlay_image_one) (simp add: same_shape3_def)
  show ?thesis
    by (simp add: combine_masks_overlays_def and_then_def tensor_add_def same_shape2_def
        tensor_to_numpy_zeros_bhwc viridis_zero b r i o1 overlay_half shape_index_def Let_def)
qed

lemma fold_min_Min: "fold min xs (x::real) = Min (set (x # xs))"
  by (rule Min.set_eq_fold [symmetric])

lemma fold_max_Max: "fold max xs (x::real) = Max (set (x # xs))"
  by (rule Max.set_eq_fold [symmetric])

lemma tensor_min_Min:
  "concat t \<noteq> [] \<Longrightarrow> tensor_min t = Inr (Min (set (concat t)))"
  by (cases "concat t") (simp_all add: tensor_min_def fold_min_Min)

lemma tensor_max_Max:
  "concat t \<noteq> [] \<Longrightarrow> tensor_max t = Inr (Max (set (concat t)))"
  by (cases "concat t") (simp_all add: tensor_max_def fold_max_Max)

lemma normalize_step_nonempty:
  "concat t \<noteq> [] \<Longrightarrow>
     normalize_step t =
       Inr (map (map (\<lambda>v. fp_div (v - Min (set (concat t)))
                              (Max (set (concat t)) - Min (set (concat t))))) t)"
  by (simp add: normalize_step_def and_then_def tensor_min_Min tensor_max_Max)

lemma concat_map_map: "concat (map (map f) t) = map f (concat t)"
  by (induction t) simp_all

lemma get_mask_dilated_raises:
  "\<exists>e. get_mask_dilated L self flat threshold blur dilation_factor = Inl e"
  by (simp add: get_mask_dilated_def and_then_def Let_def split: sum.split)

lemma to_pil_image_zeros_chw: "to_pil_image lib_ok zeros_chw = Inr ()"
  by (simp add: lib_ok_def zeros_chw_def)

lemma do_clipseg_lib_ok:
  "do_clipseg lib_ok self w prompt images
     = (Inr [[0, 0], [0, 0]], self, w @ [LoadProcessor pretrained_path, LoadModel pretrained_path])"
  by (simp add: do_clipseg_def lib_ok_def and_then_def index0_def)

section \<open>The claims\<close>

text \<open>
  Claim C1 (the post-processing pipeline of \<^verbatim>\<open>segment_image\<close>). The claim promises that
  every invocation runs threshold, blur, normalisation, dilation, colorization, resize and
  compositing and returns three tensors. The code never gets past the dilation: whatever
  the libraries and the inputs, \<^verbatim>\<open>segment_image\<close> ends in an error and returns nothing.
\<close>

theorem segment_image_always_raises: "\<exists>e. fst (segment_image L self w img prompt blur threshold dilation_factor) = Inl e"
proof (cases "to_pil_image L img")
  case (Inl e)
  then show ?thesis by (simp add: segment_image_def)
next
  case (Inr pil_image)
  obtain r self1 w1 where d: "do_clipseg L self w prompt [pil_image] = (r, self1, w1)"
    by (cases "do_clipseg L self w prompt [pil_image]") auto
  show ?thesis
  proof (cases r)
    case (Inl e)
    with Inr d show ?thesis by (simp add: segment_image_def)
  next
    case flat: (Inr flat)
    obtain e where "get_mask_dilated L self1 flat threshold blur dilation_factor = Inl e"
      using get_mask_dilated_raises by blast
    with Inr d flat show ?thesis by (simp add: segment_image_def and_then_def)
  qed
qed

text \<open>
  Claim C2 (\<^verbatim>\<open>combine_masks\<close> returns the sum of the masks and two overlays). The code
  computes them and then raises on the conversion of the first overlay: whatever the
  libraries and the inputs, \<^verbatim>\<open>combine_masks\<close> ends in an error and returns nothing.
\<close>

theorem combine_masks_always_raises: "\<exists>e. fst (combine_masks L self w input_image mask_1 mask_2 mask_3) = Inl e"
  by (simp add: combine_masks_def and_then_def split: sum.split)

text \<open>
  Claim C3, as amended (the threshold step). The step keeps the shape of the tensor and
  maps every element \<open>v\<close>, so every value of the sigmoid of the logits, to \<open>v\<close> itself
  when it is strictly greater than the threshold rounded to float32, and to 0 otherwise.
  For a threshold that is a float32 value this is the comparison with the threshold
  itself. The values above the threshold are kept and not set to 1: the logit 0 with
  threshold 0.4 gives its sigmoid 0.5.
\<close>

theorem threshold_step_compares_in_float32:
  "map length (torch_where_gt threshold tensor) = map length tensor
   \<and> torch_where_gt threshold tensor
       = map (map (\<lambda>v. if v > f32_round threshold then v else 0)) tensor
   \<and> threshold_step flat threshold
       = map (map (\<lambda>x. if sigmoid x > f32_round threshold then sigmoid x else 0)) flat
   \<and> (f32_round threshold = threshold \<longrightarrow>
        torch_where_gt threshold tensor = map (map (\<lambda>v. if v > threshold then v else 0)) tensor)
   \<and> threshold_step [[0]] (2 / 5) = [[1 / 2]]"
  by (simp add: threshold_step_def torch_where_gt_def sigmoid_zero comp_def f32_round_two_fifths)

theorem threshold_step_compares_in_float32_witness:
  "f32_round (1 / 2) = 1 / 2 \<and> torch_where_gt (1 / 2) [[3 / 4, 1 / 2, 1 / 4]] = [[3 / 4, 0, 0]]"
proof -
  have "torch_where_gt (1 / 2) [[3 / 4, 1 / 2, 1 / 4]]
      = map (map (\<lambda>v. if v > 1 / 2 then v else 0)) [[3 / 4, 1 / 2, 1 / 4]]"
    using threshold_step_compares_in_float32 [of "1 / 2" "[[3 / 4, 1 / 2, 1 / 4]]"] f32_round_half by blast
  then show ?thesis using f32_round_half by simp
qed

text \<open>
  Claim C3 as stated fails: the float32 value 13421773 / 33554432, to which 0.4 is
  rounded, is strictly greater than the threshold 0.4, and the step maps it to 0.
\<close>

theorem threshold_step_real_comparison_counterexample:
  "(13421773 / 33554432 :: real) > 2 / 5
   \<and> torch_where_gt (2 / 5) [[13421773 / 33554432]] = [[0]]"
  by (simp add: torch_where_gt_def f32_round_two_fifths)

text \<open>
  Claim C4 (no state between invocations). The node object gets its two attributes in
  \<^verbatim>\<open>__init__\<close>, and \<^verbatim>\<open>segment_image\<close>, \<^verbatim>\<open>do_clipseg\<close> and \<^verbatim>\<open>combine_masks\<close> return the
  node object as they received it. \<^verbatim>\<open>combine_masks\<close>
  returns the state of the world as it received it, and \<^verbatim>\<open>segment_image\<close> changes it
  only through \<^verbatim>\<open>do_clipseg\<close>. Every call of \<^verbatim>\<open>do_clipseg\<close> loads the processor in the
  world as it is at the call and then, when that succeeded, the model; the world it
  leaves is the one the two loads leave, and its result is computed with the processor
  and the model that these two loads returned. With the library that records its loads,
  one call from the empty record makes the two loads, and a second call on what the
  first left makes both again.
\<close>

theorem nodes_keep_no_state:
  "CLIPSeg_init should_use_fp16 torch_device
     = \<lparr>dtype = (if should_use_fp16 then Float16 else Float32), device = torch_device\<rparr>
   \<and> fst (snd (segment_image L self w img prompt blur threshold dilation_factor)) = self
   \<and> snd (snd (segment_image L self w img prompt blur threshold dilation_factor))
       = (case to_pil_image L img of
            Inl e \<Rightarrow> w
          | Inr pil_image \<Rightarrow> snd (snd (do_clipseg L self w prompt [pil_image])))
   \<and> snd (combine_masks L node w input_image mask_1 mask_2 mask_3) = (node, w)
   \<and> fst (snd (do_clipseg L self w prompt images)) = self
   \<and> snd (snd (do_clipseg L self w prompt images))
       = (case processor_from_pretrained L pretrained_path w of
            (Inl e, w1) \<Rightarrow> w1
          | (Inr processor, w1) \<Rightarrow> snd (model_from_pretrained L pretrained_path w1))
   \<and> fst (do_clipseg L self w prompt images)
       = (case processor_from_pretrained L pretrained_path w of
            (Inl e, w1) \<Rightarrow> Inl e
          | (Inr processor, w1) \<Rightarrow>
              and_then (fst (model_from_pretrained L pretrained_path w1)) (\<lambda>loaded.
              and_then (model_to L loaded (device self)) (\<lambda>model.
              and_then (processor_call L processor prompt images) (\<lambda>inputs.
              and_then (model_call L model inputs) index0))))
   \<and> snd (snd (do_clipseg lib_ok self [] prompt imgs))
       = [LoadProcessor pretrained_path, LoadModel pretrained_path]
   \<and> snd (snd (do_clipseg lib_ok self
         (snd (snd (do_clipseg lib_ok self [] prompt imgs))) prompt imgs))
       = [LoadProcessor pretrained_path, LoadModel pretrained_path,
          LoadProcessor pretrained_path, LoadModel pretrained_path]"
proof -
  have dc_self: "fst (snd (do_clipseg L s v q is)) = s" for s v q "is"
    by (simp add: do_clipseg_def split: sum.split prod.split)
  have dc_world: "snd (snd (do_clipseg L self w prompt images))
       = (case processor_from_pretrained L pretrained_path w of
            (Inl e, w1) \<Rightarrow> w1
          | (Inr processor, w1) \<Rightarrow> snd (model_from_pretrained L pretrained_path w1))"
    by (simp add: do_clipseg_def split: sum.split prod.split)
  have dc_result: "fst (do_clipseg L self w prompt images)
       = (case processor_from_pretrained L pretrained_path w of
            (Inl e, w1) \<Rightarrow> Inl e
          | (Inr processor, w1) \<Rightarrow>
              and_then (fst (model_from_pretrained L pretrained_path w1)) (\<lambda>loaded.
              and_then (model_to L loaded (device self)) (\<lambda>model.
              and_then (processor_call L processor prompt images) (\<lambda>inputs.
              and_then (model_call L model inputs) index0))))"
    by (simp add: do_clipseg_def split: sum.split prod.split)
  have si_self: "fst (snd (segment_image L self w img prompt blur threshold dilation_factor)) = self"
    by (auto simp: segment_image_def split: sum.split prod.split)
      (metis dc_self fst_conv snd_conv)+
  have si_world: "snd (snd (segment_image L self w img prompt blur threshold dilation_factor))
       = (case to_pil_image L img of
            Inl e \<Rightarrow> w
          | Inr pil_image \<Rightarrow> snd (snd (do_clipseg L self w prompt [pil_image])))"
    by (auto simp: segment_image_def split: sum.split prod.split)
  have cm: "snd (combine_masks L node w input_image mask_1 mask_2 mask_3) = (node, w)"
    by (simp add: combine_masks_def)
  have once: "snd (snd (do_clipseg lib_ok self [] prompt imgs))
       = [LoadProcessor pretrained_path, LoadModel pretrained_path]"
    by (simp add: do_clipseg_lib_ok)
  have twice: "snd (snd (do_clipseg lib_ok self
         (snd (snd (do_clipseg lib_ok self [] prompt imgs))) prompt imgs))
       = [LoadProcessor pretrained_path, LoadModel pretrained_path,
          LoadProcessor pretrained_path, LoadModel pretrained_path]"
    by (simp add: do_clipseg_lib_ok)
  have init: "CLIPSeg_init should_use_fp16 torch_device
     = \<lparr>dtype = (if should_use_fp16 then Float16 else Float32), device = torch_device\<rparr>"
    by (rule CLIPSeg_init_def)
  show ?thesis
    using init si_self si_world cm dc_self dc_world dc_result once twice by blast
qed

text \<open>
  Claim C5 (only library errors reach the caller). With a library in which every call
  succeeds, \<^verbatim>\<open>segment_image\<close> on a black image of shape (3, 2, 2) and \<^verbatim>\<open>combine_masks\<close>
  on a black image of shape (1, 2, 2, 3) with two masks of zeros still raise: a TypeError
  of the module's own calls, which pass too few arguments.
\<close>

theorem type_errors_without_library_failure:
  "fst (segment_image lib_ok \<lparr>dtype = Float32, device = ''cpu''\<rparr> [] zeros_chw ''cat'' 7 (2 / 5) 4)
     = Inl (TypeError ''dilate_mask() missing 1 required positional argument: dtype'')
   \<and> fst (combine_masks lib_ok () [] zeros_bhwc [[0, 0], [0, 0]] [[0, 0], [0, 0]] None)
     = Inl (TypeError ''numpy_to_tensor() missing 1 required positional argument: dtype'')"
proof
  have g: "get_mask_dilated lib_ok self [[0, 0], [0, 0]] (2 / 5) 7 4
      = Inl (TypeError ''dilate_mask() missing 1 required positional argument: dtype'')" for self
    by (simp add: get_mask_dilated_def lib_ok_def and_then_def threshold_step_def
        torch_where_gt_def normalize_step_def tensor_min_def tensor_max_def Let_def)
  show "fst (segment_image lib_ok \<lparr>dtype = Float32, device = ''cpu''\<rparr> [] zeros_chw ''cat'' 7 (2 / 5) 4)
     = Inl (TypeError ''dilate_mask() missing 1 required positional argument: dtype'')"
    by (simp add: segment_image_def to_pil_image_zeros_chw do_clipseg_lib_ok g and_then_def)
next
  show "fst (combine_masks lib_ok () [] zeros_bhwc [[0, 0], [0, 0]] [[0, 0], [0, 0]] None)
     = Inl (TypeError ''numpy_to_tensor() missing 1 required positional argument: dtype'')"
    by (simp add: combine_masks_def combine_masks_overlays_zeros and_then_def)
qed

text \<open>
  Claim C6 (\<^verbatim>\<open>overlay_image\<close> with alpha 1). For a background and a foreground of the same
  shape the overlay with alpha 1 is the foreground, and it is the same for any other
  background of that shape; so the binary overlay of \<^verbatim>\<open>get_binary\<close> is the resized binary
  colormap image, and so is the binary overlay that \<^verbatim>\<open>combine_masks\<close> computes: the binary
  colormap image resized to the width and the height of the image array.
\<close>

theorem overlay_image_alpha_one:
  "(same_shape3 background foreground \<longrightarrow> overlay_image background foreground 1 = Inr foreground)
   \<and> (same_shape3 background background' \<longrightarrow>
        overlay_image background' foreground 1 = overlay_image background foreground 1)
   \<and> (resize_image L (apply_colormap mask_dilated (Greys_r L)) (shape1 img, shape0 img) = Inr resized
        \<and> same_shape3 img resized \<longrightarrow>
        get_binary L mask_dilated img dt = Inr (numpy_to_tensor L resized dt, resized))
   \<and> (combine_masks_overlays L input_image mask_1 mask_2 mask_3
          = Inr (combined_mask, overlay_heatmap, overlay_binary) \<longrightarrow>
        (\<exists>width height.
           shape_index (tensor_to_numpy input_image) 1 = Inr width
           \<and> shape_index (tensor_to_numpy input_image) 0 = Inr height
           \<and> resize_image L (apply_colormap combined_mask (Greys_r L)) (width, height)
               = Inr overlay_binary))"
proof (intro conjI impI)
  assume "same_shape3 background foreground"
  then show "overlay_image background foreground 1 = Inr foreground"
    by (rule overlay_image_one)
next
  assume "same_shape3 background background'"
  then have "same_shape3 background' foreground = same_shape3 background foreground"
    by (simp add: same_shape3_def)
  then show "overlay_image background' foreground 1 = overlay_image background foreground 1"
    by (cases "same_shape3 background foreground")
      (simp_all add: overlay_image_one, simp add: overlay_image_def addWeighted_def)
next
  assume "resize_image L (apply_colormap mask_dilated (Greys_r L)) (shape1 img, shape0 img) = Inr resized
        \<and> same_shape3 img resized"
  then show "get_binary L mask_dilated img dt = Inr (numpy_to_tensor L resized dt, resized)"
    by (simp add: get_binary_def and_then_def overlay_image_one)
next
  assume a: "combine_masks_overlays L input_image mask_1 mask_2 mask_3
          = Inr (combined_mask, overlay_heatmap, overlay_binary)"
  show "\<exists>width height.
           shape_index (tensor_to_numpy input_image) 1 = Inr width
           \<and> shape_index (tensor_to_numpy input_image) 0 = Inr height
           \<and> resize_image L (apply_colormap combined_mask (Greys_r L)) (width, height)
               = Inr overlay_binary"
    using a
    by (auto simp: combine_masks_overlays_def and_then_def Let_def
        split: sum.splits dest: overlay_image_one_Inr)
qed

theorem overlay_image_alpha_one_witness:
  "same_shape3 [[[1, 2, 3 :: 8 word]]] [[[7, 8, 9 :: 8 word]]]
   \<and> overlay_image [[[1, 2, 3]]] [[[7, 8, 9]]] 1 = Inr [[[7, 8, 9]]]
   \<and> same_shape3 [[[1, 2, 3 :: 8 word]]] [[[4, 5, 6 :: 8 word]]]
   \<and> overlay_image [[[4, 5, 6]]] [[[7, 8, 9]]] 1 = overlay_image [[[1, 2, 3]]] [[[7, 8, 9]]] 1
   \<and> get_binary lib_ok [[1]] [[[1, 2, 3]]] Float32
       = Inr (numpy_to_tensor lib_ok [[[255, 255, 255]]] Float32, [[[255, 255, 255]]])
   \<and> combine_masks_overlays lib_ok zeros_bhwc [[0, 0], [0, 0]] [[0, 0], [0, 0]] None
       = Inr ([[0, 0], [0, 0]],
              [[[34, 0, 42], [34, 0, 42]], [[34, 0, 42], [34, 0, 42]]],
              [[[0, 0, 0], [0, 0, 0]], [[0, 0, 0], [0, 0, 0]]])
   \<and> (\<exists>width height.
         shape_index (tensor_to_numpy zeros_bhwc) 1 = Inr width
         \<and> shape_index (tensor_to_numpy zeros_bhwc) 0 = Inr height
         \<and> resize_image lib_ok (apply_colormap [[0, 0], [0, 0]] (Greys_r lib_ok)) (width, height)
             = Inr [[[0, 0, 0], [0, 0, 0]], [[0, 0, 0], [0, 0, 0]]])"
proof -
  have h1: "same_shape3 [[[1, 2, 3 :: 8 word]]] [[[7, 8, 9 :: 8 word]]]"
    by (simp add: same_shape3_def)
  have h2: "same_shape3 [[[1, 2, 3 :: 8 word]]] [[[4, 5, 6 :: 8 word]]]"
    by (simp add: same_shape3_def)
  have h3: "resize_image lib_ok (apply_colormap [[1]] (Greys_r lib_ok))
              (shape1 [[[1, 2, 3 :: 8 word]]], shape0 [[[1, 2, 3 :: 8 word]]])
              = Inr [[[255, 255, 255]]]
            \<and> same_shape3 [[[1, 2, 3 :: 8 word]]] [[[255, 255, 255 :: 8 word]]]"
    by (simp add: resize_image_def apply_colormap_def lib_ok_def shape0_def shape1_def
        same_shape3_def astype_uint8_def py_int_def)
  note h4 = combine_masks_overlays_zeros
  show ?thesis
    using h1 h2 h3 h4
      overlay_image_alpha_one [of "[[[1, 2, 3]]]" "[[[7, 8, 9]]]" "[[[4, 5, 6]]]" lib_ok
        "[[1]]" "[[[1, 2, 3]]]" "[[[255, 255, 255]]]" Float32 zeros_bhwc
        "[[0, 0], [0, 0]]" "[[0, 0], [0, 0]]" None "[[0, 0], [0, 0]]"
        "[[[34, 0, 42], [34, 0, 42]], [[34, 0, 42], [34, 0, 42]]]"
        "[[[0, 0, 0], [0, 0, 0]], [[0, 0, 0], [0, 0, 0]]]"]
    by blast
qed

text \<open>
  Claim C7, as amended (\<^verbatim>\<open>dilate_mask\<close> with factor 0, and the kernel size). For a mask
  with at least one element and the dilation factor 0, the kernel has size 1 and
  \<^verbatim>\<open>dilate_mask\<close> returns the mask with every element only converted to the requested
  dtype. The kernel size is at least 1 exactly for the dilation factors above -0.5, so
  for every factor that is not negative; it is odd exactly when \<^verbatim>\<open>int(dilation_factor * 2)\<close>
  is even; for every integer factor it is twice the factor plus one.
\<close>

theorem dilate_mask_factor_zero:
  "(concat m \<noteq> [] \<longrightarrow> dilate_mask L m 0 dt = Inr (map (map (cast L dt)) m))
   \<and> kernel_size 0 = 1
   \<and> (1 \<le> kernel_size d \<longleftrightarrow> - 1 / 2 < d)
   \<and> (odd (kernel_size d) \<longleftrightarrow> even (py_int (d * 2)))
   \<and> (\<forall>n :: int. kernel_size (of_int n) = 2 * n + 1)"
proof -
  have k0: "kernel_size 0 = 1" by (simp add: kernel_size_def py_int_def)
  have "dilate_mask L m 0 dt = Inr (map (map (cast L dt)) m)" if "concat m \<noteq> []"
    using cv2_dilate_one [OF that]
    by (simp add: dilate_mask_def k0 np_ones_square_def and_then_def)
  moreover have "odd (kernel_size d) \<longleftrightarrow> even (py_int (d * 2))"
    by (simp add: kernel_size_def)
  ultimately show ?thesis
    using k0 kernel_size_at_least_one kernel_size_int by blast
qed

theorem dilate_mask_factor_zero_witness:
  "concat [[1, 2], [3, 4 :: real]] \<noteq> []
   \<and> dilate_mask lib_ok [[1, 2], [3, 4]] 0 Float32 = Inr [[1, 2], [3, 4]]"
proof -
  have h: "concat [[1, 2], [3, 4 :: real]] \<noteq> []" by simp
  have "dilate_mask lib_ok [[1, 2], [3, 4]] 0 Float32
      = Inr (map (map (cast lib_ok Float32)) [[1, 2], [3, 4]])"
    using h dilate_mask_factor_zero [of "[[1, 2], [3, 4]]" lib_ok Float32] by blast
  then show ?thesis by (simp add: lib_ok_def)
qed

text \<open>
  Claim C7 as stated fails in three places. The kernel size is not always odd: for the
  dilation factor 0.5, a value of the parameter's declared type \<^verbatim>\<open>float\<close>, it is 2. It
  is not always at least 1: for the factor -1 it is -1. And with factor 0 a mask without
  elements is not returned: \<^verbatim>\<open>cv2.dilate\<close> refuses it.
\<close>

theorem dilate_mask_claim_counterexample:
  "kernel_size (1 / 2) = 2 \<and> even (kernel_size (1 / 2)) \<and> kernel_size (- 1) = - 1
   \<and> dilate_mask lib_ok [] 0 Float32
       = Inl (LibraryError ''cv2.error: (-215:Assertion failed) !src.empty()'')"
  by (simp add: kernel_size_def py_int_def dilate_mask_def np_ones_square_def and_then_def
      cv2_dilate_def)

text \<open>
  Claim C8 (the normalisation step). On a tensor with at least one element the step
  returns, position by position, the quotient of the element minus the minimum by the
  difference of the maximum and the minimum, with no test of the divisor. When the
  tensor has two different elements the divisor is positive, the result is the tensor of
  these finite quotients, all between 0 and 1, and 0 and 1 both occur. When all elements
  are equal the divisor is 0, no error is raised, and every element of the result is
  NaN.
\<close>

theorem normalize_step_range:
  "(concat t \<noteq> [] \<longrightarrow>
      tensor_min t = Inr (Min (set (concat t)))
      \<and> tensor_max t = Inr (Max (set (concat t)))
      \<and> normalize_step t =
          Inr (map (map (\<lambda>v. fp_div (v - Min (set (concat t)))
                                 (Max (set (concat t)) - Min (set (concat t))))) t))
   \<and> ((\<exists>a \<in> set (concat t). \<exists>b \<in> set (concat t). a \<noteq> b) \<longrightarrow>
        Min (set (concat t)) < Max (set (concat t))
        \<and> (\<exists>m. normalize_step t = Inr m
             \<and> m = map (map (\<lambda>v. Fin ((v - Min (set (concat t)))
                                        / (Max (set (concat t)) - Min (set (concat t)))))) t
             \<and> (\<forall>x \<in> set (concat m). \<exists>v. x = Fin v \<and> 0 \<le> v \<and> v \<le> 1)
             \<and> Fin 0 \<in> set (concat m) \<and> Fin 1 \<in> set (concat m)))
   \<and> (concat t \<noteq> [] \<and> (\<forall>a \<in> set (concat t). \<forall>b \<in> set (concat t). a = b) \<longrightarrow>
        Max (set (concat t)) - Min (set (concat t)) = 0
        \<and> normalize_step t = Inr (map (map (\<lambda>v. NaN)) t))"
proof (intro conjI)
  show "concat t \<noteq> [] \<longrightarrow>
      tensor_min t = Inr (Min (set (concat t)))
      \<and> tensor_max t = Inr (Max (set (concat t)))
      \<and> normalize_step t =
          Inr (map (map (\<lambda>v. fp_div (v - Min (set (concat t)))
                                 (Max (set (concat t)) - Min (set (concat t))))) t)"
    using tensor_min_Min tensor_max_Max normalize_step_nonempty by blast
next
  let ?S = "set (concat t)"
  let ?mn = "Min ?S" and ?mx = "Max ?S"
  show "(\<exists>a \<in> ?S. \<exists>b \<in> ?S. a \<noteq> b) \<longrightarrow>
        ?mn < ?mx
        \<and> (\<exists>m. normalize_step t = Inr m
             \<and> m = map (map (\<lambda>v. Fin ((v - ?mn) / (?mx - ?mn)))) t
             \<and> (\<forall>x \<in> set (concat m). \<exists>v. x = Fin v \<and> 0 \<le> v \<and> v \<le> 1)
             \<and> Fin 0 \<in> set (concat m) \<and> Fin 1 \<in> set (concat m))"
  proof
    assume "\<exists>a \<in> ?S. \<exists>b \<in> ?S. a \<noteq> b"
    then obtain a b where ab: "a \<in> ?S" "b \<in> ?S" "a \<noteq> b" by blast
    have ne: "concat t \<noteq> []"
    proof
      assume "concat t = []"
      with ab(1) show False by (simp del: set_concat)
    qed
    have fin: "finite ?S" by simp
    have lo: "?mn \<le> v" if "v \<in> ?S" for v using that fin by simp
    have hi: "v \<le> ?mx" if "v \<in> ?S" for v using that fin by simp
    have lt: "?mn < ?mx"
    proof (rule ccontr)
      assume "\<not> ?mn < ?mx"
      then have "?mx \<le> ?mn" by simp
      then have "a = b" using lo [OF ab(1)] hi [OF ab(1)] lo [OF ab(2)] hi [OF ab(2)] by linarith
      with ab(3) show False by simp
    qed
    then have d: "0 < ?mx - ?mn" by simp
    let ?g = "\<lambda>v. Fin ((v - ?mn) / (?mx - ?mn))"
    let ?m = "map (map ?g) t"
    have f: "fp_div (v - ?mn) (?mx - ?mn) = ?g v" for v
      using d by (simp add: fp_div_def)
    have fe: "(\<lambda>v. fp_div (v - ?mn) (?mx - ?mn)) = ?g"
      by (rule ext) (rule f)
    have m: "normalize_step t = Inr ?m"
      unfolding normalize_step_nonempty [OF ne] fe by (rule refl)
    have cm: "set (concat ?m) = ?g ` ?S" by (simp add: concat_map_map)
    have range: "\<forall>x \<in> set (concat ?m). \<exists>v. x = Fin v \<and> 0 \<le> v \<and> v \<le> 1"
    proof
      fix x assume "x \<in> set (concat ?m)"
      then obtain v where v: "v \<in> ?S" "x = ?g v" unfolding cm by blast
      have "0 \<le> (v - ?mn) / (?mx - ?mn)" using lo [OF v(1)] d by simp
      moreover have "(v - ?mn) / (?mx - ?mn) \<le> 1" using hi [OF v(1)] d by simp
      ultimately show "\<exists>w. x = Fin w \<and> 0 \<le> w \<and> w \<le> 1" using v(2) by blast
    qed
    have "?mn \<in> ?S" using ne fin by (simp add: Min_in del: set_concat)
    then have "?g ?mn \<in> set (concat ?m)" unfolding cm by (rule imageI)
    then have zero: "Fin 0 \<in> set (concat ?m)" by simp
    have "?mx \<in> ?S" using ne fin by (simp add: Max_in del: set_concat)
    then have "?g ?mx \<in> set (concat ?m)" unfolding cm by (rule imageI)
    then have one: "Fin 1 \<in> set (concat ?m)" using d by simp
    show "?mn < ?mx
        \<and> (\<exists>m. normalize_step t = Inr m
             \<and> m = ?m
             \<and> (\<forall>x \<in> set (concat m). \<exists>v. x = Fin v \<and> 0 \<le> v \<and> v \<le> 1)
             \<and> Fin 0 \<in> set (concat m) \<and> Fin 1 \<in> set (concat m))"
      using lt m range zero one by blast
  qed
next
  let ?S = "set (concat t)"
  show "concat t \<noteq> [] \<and> (\<forall>a \<in> ?S. \<forall>b \<in> ?S. a = b) \<longrightarrow>
        Max ?S - Min ?S = 0 \<and> normalize_step t = Inr (map (map (\<lambda>v. NaN)) t)"
  proof
    assume a: "concat t \<noteq> [] \<and> (\<forall>a \<in> ?S. \<forall>b \<in> ?S. a = b)"
    then have ne: "concat t \<noteq> []" and const: "\<And>a b. a \<in> ?S \<Longrightarrow> b \<in> ?S \<Longrightarrow> a = b" by blast+
    have mn_in: "Min ?S \<in> ?S" using ne by (simp add: Min_in del: set_concat)
    have mx_in: "Max ?S \<in> ?S" using ne by (simp add: Max_in del: set_concat)
    have eq: "Max ?S = Min ?S" using const [OF mx_in mn_in] .
    have pt: "fp_div (v - Min ?S) (Max ?S - Min ?S) = NaN" if "v \<in> ?S" for v
    proof -
      have "v = Min ?S" using that mn_in const by blast
      then show ?thesis using eq by (simp add: fp_div_def)
    qed
    have "map (map (\<lambda>v. fp_div (v - Min ?S) (Max ?S - Min ?S))) t = map (map (\<lambda>v. NaN)) t"
    proof (rule map_cong [OF refl])
      fix r
      assume r: "r \<in> set t"
      show "map (\<lambda>v. fp_div (v - Min ?S) (Max ?S - Min ?S)) r = map (\<lambda>v. NaN) r"
      proof (rule map_cong [OF refl])
        fix v
        assume "v \<in> set r"
        with r have "v \<in> ?S" by auto
        then show "fp_div (v - Min ?S) (Max ?S - Min ?S) = NaN" by (rule pt)
      qed
    qed
    then have "normalize_step t = Inr (map (map (\<lambda>v. NaN)) t)"
      using normalize_step_nonempty [OF ne] by simp
    then show "Max ?S - Min ?S = 0 \<and> normalize_step t = Inr (map (map (\<lambda>v. NaN)) t)"
      using eq by simp
  qed
qed

theorem normalize_step_range_witness:
  "(0 :: real) \<in> set (concat [[0, 1 / 2], [1, 1 / 4]])
   \<and> (1 :: real) \<in> set (concat [[0, 1 / 2], [1, 1 / 4]])
   \<and> (\<exists>m. normalize_step [[0, 1 / 2], [1, 1 / 4]] = Inr m
         \<and> Fin 0 \<in> set (concat m) \<and> Fin 1 \<in> set (concat m))
   \<and> normalize_step [[0, 1 / 2], [1, 1 / 4]] = Inr [[Fin 0, Fin (1 / 2)], [Fin 1, Fin (1 / 4)]]
   \<and> concat [[1 / 2, 1 / 2 :: real]] \<noteq> []
   \<and> set (concat [[1 / 2, 1 / 2 :: real]]) = {1 / 2}
   \<and> normalize_step [[1 / 2, 1 / 2]] = Inr [[NaN, NaN]]"
proof -
  have h0: "set (concat [[1 / 2, 1 / 2 :: real]]) = {1 / 2}"
    by simp
  have in0: "(0 :: real) \<in> set (concat [[0, 1 / 2], [1, 1 / 4]])"
    and in1: "(1 :: real) \<in> set (concat [[0, 1 / 2], [1, 1 / 4]])"
    and "(0 :: real) \<noteq> 1"
    by simp_all
  then have h1: "\<exists>a \<in> set (concat [[0, 1 / 2], [1, 1 / 4 :: real]]).
      \<exists>b \<in> set (concat [[0, 1 / 2], [1, 1 / 4 :: real]]). a \<noteq> b"
    by blast
  have h2: "concat [[1 / 2, 1 / 2 :: real]] \<noteq> []
   \<and> (\<forall>a \<in> set (concat [[1 / 2, 1 / 2 :: real]]).
        \<forall>b \<in> set (concat [[1 / 2, 1 / 2 :: real]]). a = b)"
    by simp
  have c1: "\<exists>m. normalize_step [[0, 1 / 2], [1, 1 / 4]] = Inr m
         \<and> Fin 0 \<in> set (concat m) \<and> Fin 1 \<in> set (concat m)"
    using h1 normalize_step_range [of "[[0, 1 / 2], [1, 1 / 4]]"] by blast
  have c1': "normalize_step [[0, 1 / 2], [1, 1 / 4]] = Inr [[Fin 0, Fin (1 / 2)], [Fin 1, Fin (1 / 4)]]"
    by (simp add: normalize_step_def tensor_min_def tensor_max_def and_then_def fp_div_def)
  have "normalize_step [[1 / 2, 1 / 2]] = Inr (map (map (\<lambda>v. NaN)) [[1 / 2, 1 / 2 :: real]])"
    using h2 normalize_step_range [of "[[1 / 2, 1 / 2]]"] by blast
  then have c2: "normalize_step [[1 / 2, 1 / 2]] = Inr [[NaN, NaN]]"
    by simp
  show ?thesis
    using h0 in0 in1 h2 c1 c1' c2 by blast
qed

end
